theory Spec2Isabelle
  imports Complex_Main
begin

section \<open>JavaScript numbers and \<open>Number\<close> of a string\<close>

text \<open>
  A JavaScript number is kept as \<open>NaN\<close>, an infinity, or the exact rational value of a finite
  number; IEEE rounding is left out, which the comparisons below with whole numbers of
  moderate size do not feel. \<open>StringToNumber\<close> follows the grammar of the language for
  \<open>Number(s)\<close> on a string: white space trimmed, the empty string 0, an optionally signed
  decimal literal with fraction and exponent, \<open>Infinity\<close>, an unsigned binary, octal or
  hexadecimal literal; everything else \<open>NaN\<close>. Strings are byte strings, and only the ASCII
  white space is trimmed.
\<close>

datatype jsnum = NaN | Fin rat | PosInf | NegInf

fun js_lt :: "jsnum \<Rightarrow> jsnum \<Rightarrow> bool" where
  "js_lt NaN _ = False"
| "js_lt _ NaN = False"
| "js_lt (Fin a) (Fin b) = (a < b)"
| "js_lt (Fin a) PosInf = True"
| "js_lt NegInf (Fin b) = True"
| "js_lt NegInf PosInf = True"
| "js_lt _ _ = False"

fun js_ge :: "jsnum \<Rightarrow> jsnum \<Rightarrow> bool" where
  "js_ge NaN _ = False"
| "js_ge _ NaN = False"
| "js_ge a b = (\<not> js_lt a b)"

fun js_neg :: "jsnum \<Rightarrow> jsnum" where
  "js_neg NaN = NaN"
| "js_neg (Fin a) = Fin (- a)"
| "js_neg PosInf = NegInf"
| "js_neg NegInf = PosInf"

fun js_times :: "jsnum \<Rightarrow> jsnum \<Rightarrow> jsnum" where
  "js_times NaN _ = NaN"
| "js_times _ NaN = NaN"
| "js_times (Fin a) (Fin b) = Fin (a * b)"
| "js_times (Fin a) x = (if a = 0 then NaN else if 0 < a then x else js_neg x)"
| "js_times x (Fin b) = (if b = 0 then NaN else if 0 < b then x else js_neg x)"
| "js_times x y = (if x = y then PosInf else NegInf)"

definition is_digit :: "char \<Rightarrow> bool" where
  "is_digit c = (c \<in> set ''0123456789'')"

definition digit_value :: "char \<Rightarrow> int" where
  "digit_value c =
     (let n = (of_char c :: int)
      in if 48 \<le> n \<and> n \<le> 57 then n - 48
         else if 97 \<le> n \<and> n \<le> 102 then n - 87
         else if 65 \<le> n \<and> n \<le> 70 then n - 55
         else 0)"

definition is_radix_digit :: "int \<Rightarrow> char \<Rightarrow> bool" where
  "is_radix_digit base c = (c \<in> set ''0123456789abcdefABCDEF'' \<and> digit_value c < base)"

definition digits_value :: "int \<Rightarrow> string \<Rightarrow> int" where
  "digits_value base s = foldl (\<lambda>a c. base * a + digit_value c) 0 s"

definition is_digits :: "string \<Rightarrow> bool" where
  "is_digits s = (s \<noteq> [] \<and> list_all is_digit s)"

definition scale10 :: "rat \<Rightarrow> int \<Rightarrow> rat" where
  "scale10 v e = (if 0 \<le> e then v * 10 ^ nat e else v / 10 ^ nat (- e))"

definition exponent_part :: "string \<Rightarrow> int option" where
  "exponent_part x =
     (case x of
        [] \<Rightarrow> Some 0
      | e # rest \<Rightarrow>
          (case rest of
             [] \<Rightarrow> None
           | s # ds \<Rightarrow>
               if s = CHR ''-'' then (if is_digits ds then Some (- digits_value 10 ds) else None)
               else if s = CHR ''+'' then (if is_digits ds then Some (digits_value 10 ds) else None)
               else if is_digits rest then Some (digits_value 10 rest) else None))"

definition unsigned_decimal :: "string \<Rightarrow> rat option" where
  "unsigned_decimal s =
     (let m = takeWhile (\<lambda>c. c \<noteq> CHR ''e'' \<and> c \<noteq> CHR ''E'') s;
          x = dropWhile (\<lambda>c. c \<noteq> CHR ''e'' \<and> c \<noteq> CHR ''E'') s;
          ip = takeWhile (\<lambda>c. c \<noteq> CHR ''.'') m;
          dot = dropWhile (\<lambda>c. c \<noteq> CHR ''.'') m;
          fp = tl dot;
          mantissa_ok =
            (if dot = [] then is_digits ip
             else (ip = [] \<or> is_digits ip) \<and> (fp = [] \<or> is_digits fp) \<and> \<not> (ip = [] \<and> fp = []))
      in if mantissa_ok
         then (case exponent_part x of
                 None \<Rightarrow> None
               | Some e \<Rightarrow>
                   Some (scale10 (of_int (digits_value 10 ip) + of_int (digits_value 10 fp) / 10 ^ length fp) e))
         else None)"

definition str_unsigned :: "string \<Rightarrow> jsnum" where
  "str_unsigned s =
     (if s = ''Infinity'' then PosInf
      else case unsigned_decimal s of None \<Rightarrow> NaN | Some v \<Rightarrow> Fin v)"

definition non_decimal :: "string \<Rightarrow> jsnum option" where
  "non_decimal s =
     (case s of
        z # p # ds \<Rightarrow>
          (if z \<noteq> CHR ''0'' then None
           else if p \<in> set ''xX'' then Some (if ds \<noteq> [] \<and> list_all (is_radix_digit 16) ds then Fin (of_int (digits_value 16 ds)) else NaN)
           else if p \<in> set ''oO'' then Some (if ds \<noteq> [] \<and> list_all (is_radix_digit 8) ds then Fin (of_int (digits_value 8 ds)) else NaN)
           else if p \<in> set ''bB'' then Some (if ds \<noteq> [] \<and> list_all (is_radix_digit 2) ds then Fin (of_int (digits_value 2 ds)) else NaN)
           else None)
      | _ \<Rightarrow> None)"

definition is_js_space :: "char \<Rightarrow> bool" where
  "is_js_space c = ((of_char c :: nat) \<in> {9, 10, 11, 12, 13, 32})"

definition trim :: "string \<Rightarrow> string" where
  "trim s = rev (dropWhile is_js_space (rev (dropWhile is_js_space s)))"

definition StringToNumber :: "string \<Rightarrow> jsnum" where
  "StringToNumber s =
     (let t = trim s
      in if t = [] then Fin 0
         else case non_decimal t of
                Some v \<Rightarrow> v
              | None \<Rightarrow>
                  (case t of
                     c # rest \<Rightarrow>
                       if c = CHR ''-'' then js_neg (str_unsigned rest)
                       else if c = CHR ''+'' then str_unsigned rest
                       else str_unsigned t
                   | [] \<Rightarrow> Fin 0))"

section \<open>\<open>JSON.parse\<close>\<close>

text \<open>
  The text is cut into tokens by an automaton that reads one character at a time, and the
  tokens are read by a stack machine that holds the open arrays and objects. Both reject
  what \<open>JSON.parse\<close> rejects (a trailing comma, a leading zero, a control character in a
  string, text after the value). An object keeps its members in the order of the text;
  reading a property takes the last member of that name, as the parsed object does.
\<close>

datatype json = JNull | JBool bool | JNum rat | JStr string | JArr "json list" | JObj "(string \<times> json) list"

datatype jtoken =
  TLBrace | TRBrace | TLBrack | TRBrack | TColon | TComma
  | TString string | TNumber rat | TTrue | TFalse | TNull

datatype lexmode =
    Plain
  | InString string
  | InEscape string
  | InUnicode string string
  | InNumber string
  | InWord string

definition json_number :: "string \<Rightarrow> rat option" where
  \<comment> \<open>\<open>-? (0 | [1-9][0-9]*) (. [0-9]+)? ([eE] [+-]? [0-9]+)?\<close>\<close>
  "json_number s =
     (let neg = (s \<noteq> [] \<and> hd s = CHR ''-'');
          u = (if neg then tl s else s);
          m = takeWhile (\<lambda>c. c \<noteq> CHR ''e'' \<and> c \<noteq> CHR ''E'') u;
          ip = takeWhile (\<lambda>c. c \<noteq> CHR ''.'') m;
          dot = dropWhile (\<lambda>c. c \<noteq> CHR ''.'') m
      in if is_digits ip \<and> (ip = ''0'' \<or> hd ip \<noteq> CHR ''0'') \<and> (dot = [] \<or> is_digits (tl dot))
         then map_option (\<lambda>v. if neg then - v else v) (unsigned_decimal u)
         else None)"

definition utf8 :: "nat \<Rightarrow> string" where
  "utf8 n =
     (if n < 128 then [char_of n]
      else if n < 2048 then [char_of (192 + n div 64), char_of (128 + n mod 64)]
      else [char_of (224 + n div 4096), char_of (128 + (n div 64) mod 64), char_of (128 + n mod 64)])"

definition unescape :: "char \<Rightarrow> char option" where
  "unescape c =
     (if c = CHR 0x22 then Some (CHR 0x22)
      else if c = CHR 0x5C then Some (CHR 0x5C)
      else if c = CHR ''/'' then Some (CHR ''/'')
      else if c = CHR ''b'' then Some (CHR 0x08)
      else if c = CHR ''f'' then Some (CHR 0x0C)
      else if c = CHR ''n'' then Some (CHR 0x0A)
      else if c = CHR ''r'' then Some (CHR 0x0D)
      else if c = CHR ''t'' then Some (CHR 0x09)
      else None)"

definition word_token :: "string \<Rightarrow> jtoken option" where
  "word_token w =
     (if w = ''true'' then Some TTrue
      else if w = ''false'' then Some TFalse
      else if w = ''null'' then Some TNull
      else None)"

definition is_number_char :: "char \<Rightarrow> bool" where
  "is_number_char c = (c \<in> set ''0123456789+-.eE'')"

definition is_word_char :: "char \<Rightarrow> bool" where
  "is_word_char c = (c \<in> set ''abcdefghijklmnopqrstuvwxyz'')"

definition start :: "char \<Rightarrow> (jtoken list \<times> lexmode) option" where
  \<comment> \<open>A character met between tokens: the tokens it completes and the mode it opens.\<close>
  "start c =
     (if c \<in> set [CHR 0x20, CHR 0x09, CHR 0x0A, CHR 0x0D] then Some ([], Plain)
      else if c = CHR ''{'' then Some ([TLBrace], Plain)
      else if c = CHR ''}'' then Some ([TRBrace], Plain)
      else if c = CHR ''['' then Some ([TLBrack], Plain)
      else if c = CHR '']'' then Some ([TRBrack], Plain)
      else if c = CHR '':'' then Some ([TColon], Plain)
      else if c = CHR '','' then Some ([TComma], Plain)
      else if c = CHR 0x22 then Some ([], InString [])
      else if c = CHR ''-'' \<or> is_digit c then Some ([], InNumber [c])
      else if is_word_char c then Some ([], InWord [c])
      else None)"

fun lex :: "lexmode \<Rightarrow> string \<Rightarrow> jtoken list option" where
  "lex Plain [] = Some []"
| "lex (InNumber acc) [] = map_option (\<lambda>v. [TNumber v]) (json_number (rev acc))"
| "lex (InWord acc) [] = map_option (\<lambda>t. [t]) (word_token (rev acc))"
| "lex _ [] = None"
| "lex Plain (c # cs) =
     (case start c of
        None \<Rightarrow> None
      | Some (ts, mode) \<Rightarrow> map_option (\<lambda>r. ts @ r) (lex mode cs))"
| "lex (InNumber acc) (c # cs) =
     (if is_number_char c then lex (InNumber (c # acc)) cs
      else case (json_number (rev acc), start c) of
             (Some v, Some (ts, mode)) \<Rightarrow> map_option (\<lambda>r. TNumber v # ts @ r) (lex mode cs)
           | _ \<Rightarrow> None)"
| "lex (InWord acc) (c # cs) =
     (if is_word_char c then lex (InWord (c # acc)) cs
      else case (word_token (rev acc), start c) of
             (Some t, Some (ts, mode)) \<Rightarrow> map_option (\<lambda>r. t # ts @ r) (lex mode cs)
           | _ \<Rightarrow> None)"
| "lex (InString acc) (c # cs) =
     (if c = CHR 0x22 then map_option (\<lambda>r. TString (rev acc) # r) (lex Plain cs)
      else if c = CHR 0x5C then lex (InEscape acc) cs
      else if (of_char c :: nat) < 32 then None
      else lex (InString (c # acc)) cs)"
| "lex (InEscape acc) (c # cs) =
     (if c = CHR ''u'' then lex (InUnicode acc []) cs
      else case unescape c of
             None \<Rightarrow> None
           | Some e \<Rightarrow> lex (InString (e # acc)) cs)"
| "lex (InUnicode acc hex) (c # cs) =
     (if is_radix_digit 16 c
      then (if length hex = 3
            then lex (InString (rev (utf8 (nat (digits_value 16 (hex @ [c])))) @ acc)) cs
            else lex (InUnicode acc (hex @ [c])) cs)
      else None)"


datatype frame =
    ArrStart "json list"
  | ArrValue "json list"
  | ArrComma "json list"
  | ObjStart "(string \<times> json) list"
  | ObjKey "(string \<times> json) list" string
  | ObjColon "(string \<times> json) list" string
  | ObjValue "(string \<times> json) list"
  | ObjComma "(string \<times> json) list"

datatype pstate = Parsing "frame list" | Done json

fun put_value :: "json \<Rightarrow> frame list \<Rightarrow> pstate option" where
  "put_value v [] = Some (Done v)"
| "put_value v (ArrStart xs # st) = Some (Parsing (ArrValue (xs @ [v]) # st))"
| "put_value v (ArrComma xs # st) = Some (Parsing (ArrValue (xs @ [v]) # st))"
| "put_value v (ObjColon kvs k # st) = Some (Parsing (ObjValue (kvs @ [(k, v)]) # st))"
| "put_value v _ = None"

fun expects_value :: "frame list \<Rightarrow> bool" where
  "expects_value [] = True"
| "expects_value (ArrStart xs # st) = True"
| "expects_value (ArrComma xs # st) = True"
| "expects_value (ObjColon kvs k # st) = True"
| "expects_value _ = False"

fun step :: "frame list \<Rightarrow> jtoken \<Rightarrow> pstate option" where
  "step st TLBrack = (if expects_value st then Some (Parsing (ArrStart [] # st)) else None)"
| "step st TLBrace = (if expects_value st then Some (Parsing (ObjStart [] # st)) else None)"
| "step (ArrStart xs # st) TRBrack = put_value (JArr xs) st"
| "step (ArrValue xs # st) TRBrack = put_value (JArr xs) st"
| "step (ObjStart kvs # st) TRBrace = put_value (JObj kvs) st"
| "step (ObjValue kvs # st) TRBrace = put_value (JObj kvs) st"
| "step (ArrValue xs # st) TComma = Some (Parsing (ArrComma xs # st))"
| "step (ObjValue kvs # st) TComma = Some (Parsing (ObjComma kvs # st))"
| "step (ObjKey kvs k # st) TColon = Some (Parsing (ObjColon kvs k # st))"
| "step (ObjStart kvs # st) (TString k) = Some (Parsing (ObjKey kvs k # st))"
| "step (ObjComma kvs # st) (TString k) = Some (Parsing (ObjKey kvs k # st))"
| "step st (TString s) = put_value (JStr s) st"
| "step st (TNumber n) = put_value (JNum n) st"
| "step st TTrue = put_value (JBool True) st"
| "step st TFalse = put_value (JBool False) st"
| "step st TNull = put_value JNull st"
| "step _ _ = None"

fun parse_tokens :: "pstate \<Rightarrow> jtoken list \<Rightarrow> json option" where
  "parse_tokens (Done v) [] = Some v"
| "parse_tokens (Parsing st) [] = None"
| "parse_tokens (Done v) (t # ts) = None"
| "parse_tokens (Parsing st) (t # ts) =
     (case step st t of None \<Rightarrow> None | Some p \<Rightarrow> parse_tokens p ts)"

definition JSON_parse :: "string \<Rightarrow> json option" where
  "JSON_parse text =
     (case lex Plain text of None \<Rightarrow> None | Some ts \<Rightarrow> parse_tokens (Parsing []) ts)"

section \<open>JWTService: decoding without verification\<close>

text \<open>
  \<open>Buffer.from(s, 'base64')\<close> is lenient: it stops at the first \<open>=\<close> and skips every
  character that is not of the alphabet, and a trailing group of two or three characters
  gives one or two bytes. \<open>toString()\<close> is kept as the bytes themselves. \<open>ToNumber\<close> is the
  coercion that \<open>*\<close> applies to its operand: an array goes through its \<open>join\<close>, so the
  empty array is 0, a one-element array is its element read back from its text, and a longer
  one is \<open>NaN\<close>.
\<close>

definition split :: "char \<Rightarrow> string \<Rightarrow> string list" where
  \<comment> \<open>\<open>s.split(sep)\<close> for a one-character separator.\<close>
  "split sep s = foldr (\<lambda>c parts. if c = sep then [] # parts else (c # hd parts) # tl parts) s [[]]"

definition replace_char :: "char \<Rightarrow> char \<Rightarrow> string \<Rightarrow> string" where
  "replace_char a b s = map (\<lambda>c. if c = a then b else c) s"

definition base64_index :: "char \<Rightarrow> nat option" where
  "base64_index c =
     (let n = (of_char c :: nat)
      in if 65 \<le> n \<and> n \<le> 90 then Some (n - 65)
         else if 97 \<le> n \<and> n \<le> 122 then Some (n - 71)
         else if 48 \<le> n \<and> n \<le> 57 then Some (n + 4)
         else if c = CHR ''+'' \<or> c = CHR ''-'' then Some 62
         else if c = CHR ''/'' \<or> c = CHR ''_'' then Some 63
         else None)"

fun sextets_bytes :: "nat list \<Rightarrow> nat list" where
  "sextets_bytes (a # b # c # d # rest) =
     (a * 4 + b div 16) # ((b mod 16) * 16 + c div 4) # ((c mod 4) * 64 + d) # sextets_bytes rest"
| "sextets_bytes [a, b, c] = [a * 4 + b div 16, (b mod 16) * 16 + c div 4]"
| "sextets_bytes [a, b] = [a * 4 + b div 16]"
| "sextets_bytes _ = []"

definition base64_decode :: "string \<Rightarrow> string" where
  "base64_decode s =
     map char_of (sextets_bytes (List.map_filter base64_index (takeWhile (\<lambda>c. c \<noteq> CHR ''='') s)))"

definition decodeToken :: "string \<Rightarrow> json option" where
  "decodeToken token =
     (let parts = split (CHR ''.'') token
      in if length parts \<noteq> 3 \<or> parts ! 1 = [] then None
         else
           let base64Payload = replace_char (CHR ''_'') (CHR ''/'') (replace_char (CHR ''-'') (CHR ''+'') (parts ! 1));
               paddedPayload = base64Payload @ replicate ((4 - length base64Payload mod 4) mod 4) (CHR ''='');
               decoded = base64_decode paddedPayload
           in JSON_parse decoded)"

fun array_number :: "json list \<Rightarrow> jsnum" and element_number :: "json \<Rightarrow> jsnum" where
  "array_number [] = Fin 0"
| "array_number [x] = element_number x"
| "array_number (x # y # zs) = NaN"
| "element_number JNull = Fin 0"
| "element_number (JBool b) = NaN"
| "element_number (JNum n) = Fin n"
| "element_number (JStr s) = StringToNumber s"
| "element_number (JArr xs) = array_number xs"
| "element_number (JObj kvs) = NaN"

fun ToNumber :: "json \<Rightarrow> jsnum" where
  "ToNumber JNull = Fin 0"
| "ToNumber (JBool b) = Fin (if b then 1 else 0)"
| "ToNumber (JNum n) = Fin n"
| "ToNumber (JStr s) = StringToNumber s"
| "ToNumber (JArr xs) = array_number xs"
| "ToNumber (JObj kvs) = NaN"

fun truthy :: "json \<Rightarrow> bool" where
  "truthy JNull = False"
| "truthy (JBool b) = b"
| "truthy (JNum n) = (n \<noteq> 0)"
| "truthy (JStr s) = (s \<noteq> [])"
| "truthy (JArr xs) = True"
| "truthy (JObj kvs) = True"

fun member_of :: "json \<Rightarrow> string \<Rightarrow> json option" where
  "member_of (JObj kvs) k = map_of (rev kvs) k"
| "member_of _ k = None"

definition isTokenExpired :: "int \<Rightarrow> string \<Rightarrow> bool" where
  "isTokenExpired now token =
     (case decodeToken token of
        None \<Rightarrow> True
      | Some decoded \<Rightarrow>
          if \<not> truthy decoded then True
          else (case member_of decoded ''exp'' of
                  None \<Rightarrow> True
                | Some e \<Rightarrow>
                    if \<not> truthy e then True
                    else js_lt (js_times (ToNumber e) (Fin 1000)) (Fin (of_int now))))"

section \<open>JWTService: signing and verification\<close>

text \<open>
  Tokens are signed and checked by the \<open>jose\<close> library. Its compact serialisation and its
  HMAC are kept symbolic: a token is either the term \<open>JWS k c\<close>, the token that signing the
  claims \<open>c\<close> with the secret \<open>k\<close> produces, or an opaque string that no signing produced
  (a provider's token, a garbled header). Two terms are the same string exactly when they are
  equal. \<open>jose\<close> reads the clock in whole seconds (\<open>epoch\<close>) and rejects a token whose
  \<open>exp\<close> is not after the current second.
\<close>

type_synonym secret = string

record payload =
  p_userId :: string
  p_sessionId :: string
  p_role :: "string option"
  p_iat :: int
  p_exp :: int

datatype token = JWS secret payload | Opaque string

datatype jose_error = JWSInvalid | JWSSignatureVerificationFailed | JWTExpired

datatype app_error =
    AuthenticationError string
  | RateLimitError int  \<comment> \<open>the message names the instant \<open>resetAt\<close>\<close>

record jwt_config =
  accessSecret :: secret
  refreshSecret :: secret
  accessExpiry :: int
  refreshExpiry :: int

definition jose_message :: "jose_error \<Rightarrow> string" where
  "jose_message e =
     (case e of
        JWSInvalid \<Rightarrow> ''Invalid Compact JWS''
      | JWSSignatureVerificationFailed \<Rightarrow> ''signature verification failed''
      | JWTExpired \<Rightarrow> [CHR 0x22] @ ''exp'' @ [CHR 0x22] @ '' claim timestamp check failed'')"

fun startsWith :: "string \<Rightarrow> string \<Rightarrow> bool" where
  "startsWith s [] = True"
| "startsWith [] (c # t) = False"
| "startsWith (a # s) (c # t) = (a = c \<and> startsWith s t)"

fun str_includes :: "string \<Rightarrow> string \<Rightarrow> bool" where
  "str_includes [] t = (t = [])"
| "str_includes (a # s) t = (startsWith (a # s) t \<or> str_includes s t)"

definition epoch :: "int \<Rightarrow> int" where
  \<comment> \<open>\<open>Math.floor(date.getTime() / 1000)\<close>\<close>
  "epoch ms = ms div 1000"

definition sign :: "int \<Rightarrow> secret \<Rightarrow> int \<Rightarrow> string \<Rightarrow> string \<Rightarrow> string option \<Rightarrow> token" where
  \<comment> \<open>\<open>new SignJWT(claims).setProtectedHeader(..).setIssuedAt().setExpirationTime(duration).sign(key)\<close>
     at the time \<open>now\<close>; \<open>duration\<close> is the configured duration in seconds.\<close>
  "sign now key duration uid sid r =
     JWS key \<lparr>p_userId = uid, p_sessionId = sid, p_role = r,
              p_iat = epoch now, p_exp = epoch now + duration\<rparr>"

definition jwtVerify :: "int \<Rightarrow> token \<Rightarrow> secret \<Rightarrow> jose_error + payload" where
  "jwtVerify now t key =
     (case t of
        Opaque s \<Rightarrow> Inl JWSInvalid
      | JWS k c \<Rightarrow>
          if k \<noteq> key then Inl JWSSignatureVerificationFailed
          else if p_exp c \<le> epoch now then Inl JWTExpired
          else Inr c)"

definition generateAccessToken :: "jwt_config \<Rightarrow> int \<Rightarrow> string \<Rightarrow> string \<Rightarrow> string \<Rightarrow> token" where
  "generateAccessToken cfg now uid sid r =
     sign now (accessSecret cfg) (accessExpiry cfg) uid sid (Some r)"

definition generateRefreshToken :: "jwt_config \<Rightarrow> int \<Rightarrow> string \<Rightarrow> string \<Rightarrow> token" where
  "generateRefreshToken cfg now uid sid =
     sign now (refreshSecret cfg) (refreshExpiry cfg) uid sid None"

definition verifyAccessToken :: "jwt_config \<Rightarrow> int \<Rightarrow> token \<Rightarrow> app_error + payload" where
  "verifyAccessToken cfg now t =
     (case jwtVerify now t (accessSecret cfg) of
        Inr c \<Rightarrow> Inr c
      | Inl e \<Rightarrow>
          if str_includes (jose_message e) ''expired''
          then Inl (AuthenticationError ''Access token has expired'')
          else Inl (AuthenticationError ''Invalid access token''))"

definition verifyRefreshToken :: "jwt_config \<Rightarrow> int \<Rightarrow> token \<Rightarrow> app_error + (string \<times> string)" where
  \<comment> \<open>Returns \<open>{userId, sessionId}\<close>.\<close>
  "verifyRefreshToken cfg now t =
     (case jwtVerify now t (refreshSecret cfg) of
        Inr c \<Rightarrow> Inr (p_userId c, p_sessionId c)
      | Inl e \<Rightarrow>
          if str_includes (jose_message e) ''expired''
          then Inl (AuthenticationError ''Refresh token has expired'')
          else Inl (AuthenticationError ''Invalid refresh token''))"

section \<open>Redis\<close>

text \<open>
  Times are JavaScript timestamps: milliseconds since the epoch, as \<open>Date.now()\<close> returns
  them. A marker of the rate limiter is the member string \<^verbatim>\<open>`${now}-${Math.random()}`\<close>;
  it is kept as the pair of the time and the text of the random draw, which that template
  renders injectively. A sorted set holds each member once, with its score; a key may carry
  an expiry time, and a key that has expired reads as absent. The client is connected, or
  its commands fail one by one, or a call raises as a whole. The session cache keeps, under
  \<open>session:<id>\<close>, the JSON text of \<open>{userId, accessToken, refreshToken, expiresAt}\<close>; the
  text is kept as the record it renders (\<open>JSON.stringify\<close> writes the date in milliseconds
  and \<open>new Date\<close> reads it back), next to the time at which the key expires.
\<close>

type_synonym member = "int \<times> string"

record zset =
  entries :: "(member \<times> int) list"
  expireAt :: "int option"

record cached_session =
  c_userId :: string
  c_accessToken :: token
  c_refreshToken :: token
  c_expiresAt :: int

datatype link =
    Connected
  | CommandsFail  \<comment> \<open>every command is answered with an error\<close>
  | ExecRejects   \<comment> \<open>the client raises on the call itself\<close>

record redis =
  link :: link
  zsets :: "string \<Rightarrow> zset option"
  strings :: "string \<Rightarrow> (cached_session \<times> int) option"

datatype redis_error = ConnectionError

datatype reply = Reply int | ReplyError redis_error

definition up :: "redis \<Rightarrow> bool" where
  \<comment> \<open>A single command (\<open>get\<close>, \<open>setex\<close>, \<open>del\<close>) resolves; otherwise its promise rejects.\<close>
  "up r = (link r = Connected)"

datatype command =
    ZREMRANGEBYSCORE string int
  | ZCARD string
  | ZADD string int member
  | EXPIRE string int

definition live :: "int \<Rightarrow> redis \<Rightarrow> string \<Rightarrow> (member \<times> int) list" where
  "live now r key =
     (case zsets r key of
        None \<Rightarrow> []
      | Some z \<Rightarrow>
          (case expireAt z of
             None \<Rightarrow> entries z
           | Some t \<Rightarrow> if t \<le> now then [] else entries z))"

definition live_expiry :: "int \<Rightarrow> redis \<Rightarrow> string \<Rightarrow> int option" where
  "live_expiry now r key =
     (case zsets r key of
        None \<Rightarrow> None
      | Some z \<Rightarrow>
          (case expireAt z of
             None \<Rightarrow> None
           | Some t \<Rightarrow> if t \<le> now then None else Some t))"

definition store :: "redis \<Rightarrow> string \<Rightarrow> (member \<times> int) list \<Rightarrow> int option \<Rightarrow> redis" where
  \<comment> \<open>Redis removes a sorted set that has become empty.\<close>
  "store r key es ex =
     (if es = [] then r\<lparr>zsets := (zsets r)(key := None)\<rparr>
      else r\<lparr>zsets := (zsets r)(key := Some \<lparr>entries = es, expireAt = ex\<rparr>)\<rparr>)"

definition zadd :: "(member \<times> int) list \<Rightarrow> int \<Rightarrow> member \<Rightarrow> (member \<times> int) list" where
  "zadd es score m =
     (if m \<in> fst ` set es then map (\<lambda>(m', s). if m' = m then (m', score) else (m', s)) es
      else es @ [(m, score)])"

definition above :: "int \<Rightarrow> (member \<times> int) list \<Rightarrow> (member \<times> int) list" where
  \<comment> \<open>What \<open>ZREMRANGEBYSCORE key -inf hi\<close> keeps: the entries whose score is not in \<open>[-inf, hi]\<close>.\<close>
  "above hi es = filter (\<lambda>(m, s). \<not> s \<le> hi) es"

fun run_command :: "int \<Rightarrow> command \<Rightarrow> redis \<Rightarrow> int \<times> redis" where
  "run_command now (ZREMRANGEBYSCORE key hi) r =
     (let es = live now r key;
          kept = above hi es
      in (int (length es) - int (length kept), store r key kept (live_expiry now r key)))"
| "run_command now (ZCARD key) r = (int (length (live now r key)), r)"
| "run_command now (ZADD key score m) r =
     (let es = live now r key
      in (if m \<in> fst ` set es then 0 else 1, store r key (zadd es score m) (live_expiry now r key)))"
| "run_command now (EXPIRE key secs) r =
     (let es = live now r key
      in if es = [] then (0, store r key [] None)
         else if secs \<le> 0 then (1, store r key [] None)
         else (1, store r key es (Some (now + secs * 1000))))"

fun run_commands :: "int \<Rightarrow> command list \<Rightarrow> redis \<Rightarrow> int list \<times> redis" where
  "run_commands now [] r = ([], r)"
| "run_commands now (c # cs) r =
     (let (x, r') = run_command now c r;
          (xs, r'') = run_commands now cs r'
      in (x # xs, r''))"

definition pipeline_exec :: "int \<Rightarrow> command list \<Rightarrow> redis \<Rightarrow> redis_error + (reply list \<times> redis)" where
  \<comment> \<open>\<open>pipeline.exec()\<close>: the queued commands run in order with nothing in between, and
     the call resolves with one entry \<open>[error, result]\<close> per command. A command that fails
     leaves an entry with the error and no result, and the call still resolves; the call
     itself may also raise.\<close>
  "pipeline_exec now cs r =
     (case link r of
        Connected \<Rightarrow> (case run_commands now cs r of (xs, r') \<Rightarrow> Inr (map Reply xs, r'))
      | CommandsFail \<Rightarrow> Inr (map (\<lambda>c. ReplyError ConnectionError) cs, r)
      | ExecRejects \<Rightarrow> Inl ConnectionError)"

section \<open>RateLimitService\<close>

record rate_limit_result =
  allowed :: bool
  remaining :: int
  resetAt :: int

definition ceil_div_1000 :: "int \<Rightarrow> int" where
  \<comment> \<open>\<open>Math.ceil(windowMs / 1000)\<close> on an integer number of milliseconds.\<close>
  "ceil_div_1000 ms = - ((- ms) div 1000)"

definition rate_limit_key :: "string \<Rightarrow> string" where
  "rate_limit_key identifier = ''ratelimit:'' @ identifier"

definition result_count :: "reply list \<Rightarrow> int" where
  \<comment> \<open>\<open>(results?.[1]?.[1] as number) || 0\<close>\<close>
  "result_count results =
     (if 1 < length results
      then (case results ! 1 of Reply n \<Rightarrow> n | ReplyError e \<Rightarrow> 0)
      else 0)"

definition checkRateLimit ::
  "int \<Rightarrow> int \<Rightarrow> string \<Rightarrow> string \<Rightarrow> int \<Rightarrow> int \<Rightarrow> redis \<Rightarrow> rate_limit_result \<times> redis" where
  \<comment> \<open>\<open>now\<close> is the \<open>Date.now()\<close> of the first line, \<open>later\<close> the \<open>Date.now()\<close> read in the
     \<open>catch\<close> block, \<open>rnd\<close> the text of \<open>Math.random()\<close>.\<close>
  "checkRateLimit now later rnd identifier maxRequests windowMs r =
     (let key = rate_limit_key identifier;
          windowStart = now - windowMs
      in case pipeline_exec now
                [ZREMRANGEBYSCORE key windowStart,
                 ZCARD key,
                 ZADD key now (now, rnd),
                 EXPIRE key (ceil_div_1000 windowMs)] r of
           Inr (results, r') \<Rightarrow>
             (let count = result_count results
              in (\<lparr>allowed = count < maxRequests,
                   remaining = max 0 (maxRequests - count - 1),
                   resetAt = now + windowMs\<rparr>, r'))
         | Inl err \<Rightarrow>
             (\<lparr>allowed = True, remaining = maxRequests, resetAt = later + windowMs\<rparr>, r))"

definition enforceRateLimit ::
  "int \<Rightarrow> int \<Rightarrow> string \<Rightarrow> string \<Rightarrow> int \<Rightarrow> int \<Rightarrow> redis \<Rightarrow> (app_error + unit) \<times> redis" where
  "enforceRateLimit now later rnd identifier maxRequests windowMs r =
     (case checkRateLimit now later rnd identifier maxRequests windowMs r of
        (result, r') \<Rightarrow>
          if \<not> allowed result then (Inl (RateLimitError (resetAt result)), r') else (Inr (), r'))"

definition window_markers :: "int \<Rightarrow> int \<Rightarrow> redis \<Rightarrow> string \<Rightarrow> (member \<times> int) list" where
  \<comment> \<open>The markers of an identifier that a check at \<open>now\<close> leaves after its purge.\<close>
  "window_markers now windowMs r identifier =
     above (now - windowMs) (live now r (rate_limit_key identifier))"

section \<open>The sessions and users tables\<close>

text \<open>
  A table is the list of its rows in insertion order. A \<open>select\<close> with a \<open>where\<close> clause
  is a \<open>filter\<close>, \<open>orderBy(createdAt)\<close> a stable sort on that column, \<open>limit(1)\<close> the
  first row of what is left. The database gives a new row its \<open>id\<close> (a random UUID, passed
  to the model as \<open>new_id\<close>) and its \<open>createdAt\<close> and \<open>updatedAt\<close> (the time of the insert).
  A statement is taken to run to its end; the Redis client may be out of reach (\<open>up\<close> is
  false), in which case its calls raise and the service's \<open>catch\<close> blocks take over.
\<close>

record session_row =
  session_id :: string
  userId :: string
  accessToken :: token
  refreshToken :: token
  deviceId :: "string option"
  userAgent :: "string option"
  ipAddress :: "string option"
  expiresAt :: int
  createdAt :: int
  updatedAt :: int

record user_row =
  user_id :: string
  role :: string

record world =
  sessions :: "session_row list"
  users :: "user_row list"
  cache :: redis

record deviceInfo =
  di_userAgent :: "string option"
  di_ip :: "string option"
  di_deviceId :: "string option"

record new_session =
  n_userId :: string
  n_accessToken :: token
  n_refreshToken :: token
  n_deviceInfo :: "deviceInfo option"
  n_expiresAt :: int

record session =
  s_id :: string
  s_userId :: string
  s_accessToken :: token
  s_refreshToken :: token
  s_expiresAt :: int

record session_identity =
  i_id :: string
  i_userId :: string
  i_role :: string

record session_summary =
  sm_id :: string
  sm_deviceId :: "string option"
  sm_userAgent :: "string option"
  sm_ipAddress :: "string option"
  sm_createdAt :: int
  sm_expiresAt :: int

definition is_hex :: "char \<Rightarrow> bool" where
  "is_hex c = (c \<in> set ''0123456789abcdef'')"

definition uuid_text :: "string \<Rightarrow> bool" where
  \<comment> \<open>The text of a UUID as the database prints it: 8-4-4-4-12 hexadecimal digits.\<close>
  "uuid_text s =
     (length s = 36 \<and>
      list_all (\<lambda>i. if i \<in> {8, 13, 18, 23} then s ! i = CHR ''-'' else is_hex (s ! i)) [0..<36])"

section \<open>SessionService\<close>

definition MAX_SESSIONS_PER_USER :: int where
  "MAX_SESSIONS_PER_USER = 10"

definition REDIS_TTL_SESSION :: int where
  "REDIS_TTL_SESSION = 24 * 60 * 60"

definition session_key :: "string \<Rightarrow> string" where
  "session_key sid = ''session:'' @ sid"

definition cacheSession :: "int \<Rightarrow> string \<Rightarrow> cached_session \<Rightarrow> world \<Rightarrow> world" where
  \<comment> \<open>\<open>setex(key, REDIS_TTL.SESSION, JSON.stringify(data))\<close>; a failure is logged and dropped.\<close>
  "cacheSession now sid data w =
     (if up (cache w)
      then w\<lparr>cache := (cache w)\<lparr>strings :=
             (strings (cache w))(session_key sid := Some (data, now + REDIS_TTL_SESSION * 1000))\<rparr>\<rparr>
      else w)"

definition getCachedSession :: "int \<Rightarrow> string \<Rightarrow> world \<Rightarrow> session option" where
  "getCachedSession now sid w =
     (if up (cache w)
      then (case strings (cache w) (session_key sid) of
              None \<Rightarrow> None
            | Some (data, ex) \<Rightarrow>
                if ex \<le> now then None
                else Some \<lparr>s_id = sid, s_userId = c_userId data, s_accessToken = c_accessToken data,
                           s_refreshToken = c_refreshToken data, s_expiresAt = c_expiresAt data\<rparr>)
      else None)"

definition deleteCachedSession :: "string \<Rightarrow> world \<Rightarrow> world" where
  "deleteCachedSession sid w =
     (if up (cache w)
      then w\<lparr>cache := (cache w)\<lparr>strings := (strings (cache w))(session_key sid := None)\<rparr>\<rparr>
      else w)"

definition deleteSession :: "string \<Rightarrow> world \<Rightarrow> world" where
  "deleteSession sid w =
     deleteCachedSession sid (w\<lparr>sessions := filter (\<lambda>r. session_id r \<noteq> sid) (sessions w)\<rparr>)"

definition userSessionCount :: "int \<Rightarrow> string \<Rightarrow> world \<Rightarrow> string list" where
  \<comment> \<open>\<open>select({count: sessions.id}).from(sessions).where(and(eq(userId, ..), gt(expiresAt, now)))\<close>:
     one row per matching session, its field \<open>count\<close> holding that session's id.\<close>
  "userSessionCount now uid w =
     map session_id (filter (\<lambda>r. userId r = uid \<and> now < expiresAt r) (sessions w))"

definition session_count :: "string list \<Rightarrow> jsnum" where
  \<comment> \<open>\<open>Number(userSessionCount[0]?.count || 0)\<close>\<close>
  "session_count rows =
     (case rows of
        [] \<Rightarrow> Fin 0
      | c # _ \<Rightarrow> if c = [] then Fin 0 else StringToNumber c)"

definition oldestSession :: "string \<Rightarrow> world \<Rightarrow> session_row list" where
  \<comment> \<open>\<open>select({id}).from(sessions).where(eq(userId, ..)).orderBy(createdAt).limit(1)\<close>\<close>
  "oldestSession uid w = take 1 (sort_key createdAt (filter (\<lambda>r. userId r = uid) (sessions w)))"

definition createSession :: "int \<Rightarrow> int \<Rightarrow> string \<Rightarrow> new_session \<Rightarrow> world \<Rightarrow> string \<times> world" where
  \<comment> \<open>\<open>cap\<close> is \<open>SESSION.MAX_SESSIONS_PER_USER\<close>.\<close>
  "createSession cap now new_id data w =
     (let count = session_count (userSessionCount now (n_userId data) w);
          w1 = (if js_ge count (Fin (of_int cap))
                then (case oldestSession (n_userId data) w of
                        [] \<Rightarrow> w
                      | oldest # _ \<Rightarrow> deleteSession (session_id oldest) w)
                else w);
          row = \<lparr>session_id = new_id,
                 userId = n_userId data,
                 accessToken = n_accessToken data,
                 refreshToken = n_refreshToken data,
                 deviceId = (case n_deviceInfo data of None \<Rightarrow> None | Some d \<Rightarrow> di_deviceId d),
                 userAgent = (case n_deviceInfo data of None \<Rightarrow> None | Some d \<Rightarrow> di_userAgent d),
                 ipAddress = (case n_deviceInfo data of None \<Rightarrow> None | Some d \<Rightarrow> di_ip d),
                 expiresAt = n_expiresAt data,
                 createdAt = now,
                 updatedAt = now\<rparr>;
          w2 = w1\<lparr>sessions := sessions w1 @ [row]\<rparr>;
          w3 = cacheSession now new_id
                 \<lparr>c_userId = n_userId data, c_accessToken = n_accessToken data,
                  c_refreshToken = n_refreshToken data, c_expiresAt = n_expiresAt data\<rparr> w2
      in (new_id, w3))"

definition getSession :: "int \<Rightarrow> string \<Rightarrow> world \<Rightarrow> session option \<times> world" where
  "getSession now sid w =
     (case getCachedSession now sid w of
        Some cached \<Rightarrow> (Some cached, w)
      | None \<Rightarrow>
          (case filter (\<lambda>r. session_id r = sid) (sessions w) of
             [] \<Rightarrow> (None, w)
           | r # _ \<Rightarrow>
               (Some \<lparr>s_id = session_id r, s_userId = userId r, s_accessToken = accessToken r,
                      s_refreshToken = refreshToken r, s_expiresAt = expiresAt r\<rparr>,
                cacheSession now sid
                  \<lparr>c_userId = userId r, c_accessToken = accessToken r,
                   c_refreshToken = refreshToken r, c_expiresAt = expiresAt r\<rparr> w)))"

definition getSessionByAccessToken :: "token \<Rightarrow> world \<Rightarrow> session_identity option" where
  "getSessionByAccessToken t w =
     (case filter (\<lambda>r. accessToken r = t) (sessions w) of
        [] \<Rightarrow> None
      | r # _ \<Rightarrow>
          Some \<lparr>i_id = session_id r,
                i_userId = userId r,
                i_role = (case filter (\<lambda>u. user_id u = userId r) (users w) of
                            [] \<Rightarrow> ''staff''
                          | u # _ \<Rightarrow> if role u = [] then ''staff'' else role u)\<rparr>)"

definition getUserSessions :: "int \<Rightarrow> string \<Rightarrow> world \<Rightarrow> session_summary list" where
  "getUserSessions now uid w =
     map (\<lambda>r. \<lparr>sm_id = session_id r, sm_deviceId = deviceId r, sm_userAgent = userAgent r,
                sm_ipAddress = ipAddress r, sm_createdAt = createdAt r, sm_expiresAt = expiresAt r\<rparr>)
       (sort_key createdAt (filter (\<lambda>r. userId r = uid \<and> now < expiresAt r) (sessions w)))"

definition updateSessionTokens :: "int \<Rightarrow> string \<Rightarrow> token \<Rightarrow> token \<Rightarrow> int \<Rightarrow> world \<Rightarrow> world" where
  "updateSessionTokens now sid newAccess newRefresh newExpiresAt w =
     (let w1 = w\<lparr>sessions :=
                  map (\<lambda>r. if session_id r = sid
                           then r\<lparr>accessToken := newAccess, refreshToken := newRefresh,
                                  expiresAt := newExpiresAt, updatedAt := now\<rparr>
                           else r) (sessions w)\<rparr>
      in case getSession now sid w1 of
           (None, w2) \<Rightarrow> w2
         | (Some s, w2) \<Rightarrow>
             cacheSession now sid
               \<lparr>c_userId = s_userId s, c_accessToken = newAccess, c_refreshToken = newRefresh,
                c_expiresAt = newExpiresAt\<rparr> w2)"

definition deleteAllUserSessions :: "string \<Rightarrow> world \<Rightarrow> nat \<times> world" where
  "deleteAllUserSessions uid w =
     (let userSessions = filter (\<lambda>r. userId r = uid) (sessions w);
          w1 = w\<lparr>sessions := filter (\<lambda>r. userId r \<noteq> uid) (sessions w)\<rparr>
      in (length userSessions, fold (\<lambda>r. deleteCachedSession (session_id r)) userSessions w1))"

definition cleanupExpiredSessions :: "int \<Rightarrow> world \<Rightarrow> nat \<times> world" where
  "cleanupExpiredSessions now w =
     (length (filter (\<lambda>r. expiresAt r < now) (sessions w)),
      w\<lparr>sessions := filter (\<lambda>r. \<not> expiresAt r < now) (sessions w)\<rparr>)"

section \<open>The authentication middleware and \<open>AuthService.refreshToken\<close>\<close>

datatype authorization = NoHeader | NotBearer string | Bearer token

record auth_context =
  ctx_userId :: string
  ctx_sessionId :: string
  ctx_userRole :: "string option"

definition authenticate ::
  "jwt_config \<Rightarrow> int \<Rightarrow> authorization \<Rightarrow> world \<Rightarrow> (app_error + auth_context) \<times> world" where
  \<comment> \<open>The header is absent, does not start with \<open>Bearer \<close>, or carries a token after that
     prefix. \<open>Inr\<close> is the context handed to \<open>next()\<close>.\<close>
  "authenticate cfg now authHeader w =
     (case authHeader of
        Bearer t \<Rightarrow>
          (case verifyAccessToken cfg now t of
             Inl e \<Rightarrow> (Inl e, w)
           | Inr p \<Rightarrow>
               (case getSession now (p_sessionId p) w of
                  (None, w1) \<Rightarrow> (Inl (AuthenticationError ''Session not found''), w1)
                | (Some s, w1) \<Rightarrow>
                    if s_expiresAt s < now
                    then (Inl (AuthenticationError ''Session expired''), deleteSession (s_id s) w1)
                    else if s_accessToken s \<noteq> t
                    then (Inl (AuthenticationError ''Invalid token''), w1)
                    else (Inr \<lparr>ctx_userId = p_userId p, ctx_sessionId = p_sessionId p,
                               ctx_userRole = p_role p\<rparr>, w1)))
      | _ \<Rightarrow> (Inl (AuthenticationError ''No authorization token provided''), w))"

definition AuthService_refreshToken ::
  "jwt_config \<Rightarrow> int \<Rightarrow> token \<Rightarrow> world \<Rightarrow> (app_error + (token \<times> token)) \<times> world" where
  \<comment> \<open>\<open>Inr (accessToken, refreshToken)\<close> is the new pair.\<close>
  "AuthService_refreshToken cfg now t w =
     (case verifyRefreshToken cfg now t of
        Inl e \<Rightarrow> (Inl e, w)
      | Inr (uid, sid) \<Rightarrow>
          (case getSession now sid w of
             (None, w1) \<Rightarrow> (Inl (AuthenticationError ''Session not found''), w1)
           | (Some s, w1) \<Rightarrow>
               if s_expiresAt s < now
               then (Inl (AuthenticationError ''Session expired''), deleteSession (s_id s) w1)
               else (case filter (\<lambda>u. user_id u = s_userId s) (users w1) of
                       [] \<Rightarrow> (Inl (AuthenticationError ''User not found''), w1)
                     | user # _ \<Rightarrow>
                         (let newAccessToken = generateAccessToken cfg now (user_id user) (s_id s) (role user);
                              newRefreshToken = generateRefreshToken cfg now (user_id user) (s_id s);
                              ex = now + 7 * 24 * 60 * 60 * 1000
                          in (Inr (newAccessToken, newRefreshToken),
                              updateSessionTokens now (s_id s) newAccessToken newRefreshToken ex w1)))))"

section \<open>Concrete states used in the examples\<close>

definition redis0 :: redis where
  "redis0 = \<lparr>link = Connected, zsets = (\<lambda>k. None), strings = (\<lambda>k. None)\<rparr>"

definition redis_down :: redis where
  "redis_down = \<lparr>link = ExecRejects, zsets = (\<lambda>k. None), strings = (\<lambda>k. None)\<rparr>"

definition check4 :: "string \<Rightarrow> redis \<Rightarrow> rate_limit_result \<times> redis" where
  \<comment> \<open>\<open>checkRateLimit("ip:1.2.3.4", 3, 60000)\<close> at one instant, with the given random draw.\<close>
  "check4 rnd r = checkRateLimit 1700000000000 1700000000000 rnd ''ip:1.2.3.4'' 3 60000 r"

definition redis1 :: redis where "redis1 = snd (check4 ''0.11'' redis0)"
definition redis2 :: redis where "redis2 = snd (check4 ''0.22'' redis1)"
definition redis3 :: redis where "redis3 = snd (check4 ''0.33'' redis2)"

definition cfg0 :: jwt_config where
  "cfg0 = \<lparr>accessSecret = ''access-secret'', refreshSecret = ''refresh-secret'',
           accessExpiry = 15 * 60, refreshExpiry = 7 * 24 * 60 * 60\<rparr>"

definition userU :: string where "userU = ''7d9f5a52-0c1e-4b7a-9d3e-2f6a8c4b1e90''"
definition sidA :: string where "sidA = ''a1111111-1111-4111-8111-111111111111''"
definition sidB :: string where "sidB = ''b2222222-2222-4222-8222-222222222222''"
definition sidC :: string where "sidC = ''c3333333-3333-4333-8333-333333333333''"

definition world0 :: world where
  "world0 = \<lparr>sessions = [], users = [\<lparr>user_id = userU, role = ''owner''\<rparr>], cache = redis0\<rparr>"

definition week :: int where "week = 7 * 24 * 60 * 60 * 1000"

definition google :: "int \<Rightarrow> new_session" where
  "google t = \<lparr>n_userId = userU, n_accessToken = Opaque ''ya29.provider-access'',
      n_refreshToken = Opaque ''1//provider-refresh'', n_deviceInfo = None, n_expiresAt = t + week\<rparr>"

definition login :: "int \<Rightarrow> int \<Rightarrow> world" where
  \<comment> \<open>What \<open>handleOAuthCallback\<close> leaves for an existing user: the session is created at
     \<open>t\<close> with the provider's tokens, and the pair signed at \<open>t'\<close> is written onto it.\<close>
  "login t t' =
     updateSessionTokens t' sidA (generateAccessToken cfg0 t' userU sidA ''owner'')
       (generateRefreshToken cfg0 t' userU sidA) (t + week)
       (snd (createSession MAX_SESSIONS_PER_USER t sidA (google t) world0))"

definition access0 :: token where "access0 = generateAccessToken cfg0 1700000000000 userU sidA ''owner''"
definition refresh0 :: token where "refresh0 = generateRefreshToken cfg0 1700000000000 userU sidA"


definition rotated :: world where
  \<comment> \<open>The session of \<open>login\<close> after one refresh, ten minutes later.\<close>
  "rotated = snd (AuthService_refreshToken cfg0 1700000600000 refresh0 (login 1700000000000 1700000000000))"

definition rotated_session :: session where
  "rotated_session =
     \<lparr>s_id = sidA, s_userId = userU,
      s_accessToken = generateAccessToken cfg0 1700000600000 userU sidA ''owner'',
      s_refreshToken = generateRefreshToken cfg0 1700000600000 userU sidA,
      s_expiresAt = 1700000600000 + week\<rparr>"

definition late_session :: session where
  "late_session =
     \<lparr>s_id = sidA, s_userId = userU,
      s_accessToken = generateAccessToken cfg0 1700000001500 userU sidA ''owner'',
      s_refreshToken = generateRefreshToken cfg0 1700000001500 userU sidA,
      s_expiresAt = 1700000000000 + week\<rparr>"

definition late_refresh :: token where
  "late_refresh = generateRefreshToken cfg0 1700000001500 userU sidA"

definition three_sessions :: world where
  \<comment> \<open>Three logins of one user, a second apart, under a cap of two sessions.\<close>
  "three_sessions =
     snd (createSession 2 1700000002000 sidC (google 1700000002000)
       (snd (createSession 2 1700000001000 sidB (google 1700000001000)
         (snd (createSession 2 1700000000000 sidA (google 1700000000000) world0)))))"

definition eleven_sessions :: world where
  \<comment> \<open>Eleven logins of one user, a second apart, under the cap of the source.\<close>
  "eleven_sessions =
     fold (\<lambda>(c, k) w. snd (createSession MAX_SESSIONS_PER_USER (1700000000000 + k * 1000)
                                (c # ''1111111-1111-4111-8111-111111111111'')
                                (google (1700000000000 + k * 1000)) w))
       (zip ''0123456789a'' [0, 1, 2, 3, 4, 5, 6, 7, 8, 9, 10]) world0"

definition orphan_world :: world where
  \<open>orphan_world =
     \<lparr>sessions = [\<lparr>session_id = sidA, userId = userU, accessToken = access0, refreshToken = refresh0,
                   deviceId = None, userAgent = None, ipAddress = None,
                   expiresAt = 1700604800000, createdAt = 1700000000000, updatedAt = 1700000000000\<rparr>],
      users = [], cache = redis0\<rparr>\<close>

definition cache_link :: "link \<Rightarrow> world \<Rightarrow> world" where
  \<comment> \<open>The same state with the Redis client in another condition.\<close>
  "cache_link l w = w\<lparr>cache := (cache w)\<lparr>link := l\<rparr>\<rparr>"

definition string_exp_token :: string where
  \<comment> \<open>Header \<open>{"alg":"HS256","typ":"JWT"}\<close>, payload \<open>{"exp":"abc"}\<close>, signature text \<open>sig\<close>.\<close>
  "string_exp_token = ''eyJhbGciOiJIUzI1NiIsInR5cCI6IkpXVCJ9.eyJleHAiOiJhYmMifQ.c2ln''"

section \<open>Properties of the rate limiter\<close>

lemma live_store_same:
  "live now (store r key kept (live_expiry now r key)) key = kept"
  by (auto simp: live_def store_def live_expiry_def split: option.splits)

lemma live_expiry_store_same:
  "kept \<noteq> [] \<Longrightarrow>
   live_expiry now (store r key kept (live_expiry now r key)) key = live_expiry now r key"
  by (auto simp: live_def store_def live_expiry_def split: option.splits)

lemma live_store_fresh:
  "now < t \<Longrightarrow> live now (store r key es (Some t)) key = es"
  by (auto simp: live_def store_def split: option.splits)

lemma zadd_nonempty: "zadd es score m \<noteq> []"
  by (auto simp: zadd_def)

lemma zadd_member: "(m, score) \<in> set (zadd es score m)"
  by (force simp: zadd_def image_iff)

lemma ceil_div_1000_pos: "0 < w \<Longrightarrow> 0 < ceil_div_1000 w"
  unfolding ceil_div_1000_def by linarith

lemma set_above: "set (above hi es) = {(m, s). (m, s) \<in> set es \<and> hi < s}"
  by (auto simp: above_def)

text \<open>
  C3. With the store connected, every check counts the markers of the identifier that are
  younger than the window (those the purge leaves), answers
  \<open>allowed = count < maxRequests\<close> and \<open>remaining = max 0 (maxRequests - count - 1)\<close> with
  \<open>resetAt = now + windowMs\<close>, and, whatever the answer, leaves its own marker in the set
  next to the ones counted.
\<close>

theorem checkRateLimit_sliding_window:
  assumes "link r = Connected"
  shows "fst (checkRateLimit now later rnd identifier maxRequests windowMs r) =
           \<lparr>allowed = int (length (window_markers now windowMs r identifier)) < maxRequests,
            remaining = max 0 (maxRequests - int (length (window_markers now windowMs r identifier)) - 1),
            resetAt = now + windowMs\<rparr>
         \<and> set (window_markers now windowMs r identifier) =
             {(m, s). (m, s) \<in> set (live now r (rate_limit_key identifier)) \<and> now - windowMs < s}
         \<and> (0 < windowMs \<longrightarrow>
              live now (snd (checkRateLimit now later rnd identifier maxRequests windowMs r))
                (rate_limit_key identifier)
              = zadd (window_markers now windowMs r identifier) now (now, rnd))"
proof (intro conjI impI)
  show "fst (checkRateLimit now later rnd identifier maxRequests windowMs r) =
           \<lparr>allowed = int (length (window_markers now windowMs r identifier)) < maxRequests,
            remaining = max 0 (maxRequests - int (length (window_markers now windowMs r identifier)) - 1),
            resetAt = now + windowMs\<rparr>"
    using assms
    by (simp add: checkRateLimit_def pipeline_exec_def Let_def split_def result_count_def
        window_markers_def live_store_same)
  show "set (window_markers now windowMs r identifier) =
             {(m, s). (m, s) \<in> set (live now r (rate_limit_key identifier)) \<and> now - windowMs < s}"
    by (simp add: window_markers_def set_above)
  assume "0 < windowMs"
  then show "live now (snd (checkRateLimit now later rnd identifier maxRequests windowMs r))
                (rate_limit_key identifier)
              = zadd (window_markers now windowMs r identifier) now (now, rnd)"
    using assms ceil_div_1000_pos[of windowMs]
    by (simp add: checkRateLimit_def pipeline_exec_def Let_def split_def result_count_def
        window_markers_def live_store_same zadd_nonempty live_expiry_store_same live_store_fresh)
qed

text \<open>
  Four checks of \<open>ip:1.2.3.4\<close> with limit 3 and a window of 60000 ms, at one instant and
  from an empty store, are answered true, true, true, false with 2, 1, 0, 0 remaining.
\<close>

lemma markers_redis0: "window_markers 1700000000000 60000 redis0 ''ip:1.2.3.4'' = []"
  by code_simp
lemma markers_redis1: "length (window_markers 1700000000000 60000 redis1 ''ip:1.2.3.4'') = 1"
  by code_simp
lemma markers_redis2: "length (window_markers 1700000000000 60000 redis2 ''ip:1.2.3.4'') = 2"
  by code_simp
lemma markers_redis3: "length (window_markers 1700000000000 60000 redis3 ''ip:1.2.3.4'') = 3"
  by code_simp
lemma up_scenario:
  "link redis0 = Connected" "link redis1 = Connected" "link redis2 = Connected" "link redis3 = Connected"
  by code_simp+

theorem checkRateLimit_sliding_window_witness:
  "link redis0 = Connected \<and> link redis1 = Connected \<and> link redis2 = Connected \<and> link redis3 = Connected
   \<and> map fst [check4 ''0.11'' redis0, check4 ''0.22'' redis1, check4 ''0.33'' redis2, check4 ''0.44'' redis3]
     = [\<lparr>allowed = True, remaining = 2, resetAt = 1700000060000\<rparr>,
        \<lparr>allowed = True, remaining = 1, resetAt = 1700000060000\<rparr>,
        \<lparr>allowed = True, remaining = 0, resetAt = 1700000060000\<rparr>,
        \<lparr>allowed = False, remaining = 0, resetAt = 1700000060000\<rparr>]"
  using checkRateLimit_sliding_window[OF up_scenario(1), of 1700000000000 1700000000000 "''0.11''" "''ip:1.2.3.4''" 3 60000]
        checkRateLimit_sliding_window[OF up_scenario(2), of 1700000000000 1700000000000 "''0.22''" "''ip:1.2.3.4''" 3 60000]
        checkRateLimit_sliding_window[OF up_scenario(3), of 1700000000000 1700000000000 "''0.33''" "''ip:1.2.3.4''" 3 60000]
        checkRateLimit_sliding_window[OF up_scenario(4), of 1700000000000 1700000000000 "''0.44''" "''ip:1.2.3.4''" 3 60000]
  by (simp add: check4_def markers_redis0 markers_redis1 markers_redis2 markers_redis3 up_scenario)

text \<open>
  C7. When the call to the store raises, the check answers
  \<open>allowed = true\<close>, \<open>remaining = maxRequests\<close> and \<open>resetAt\<close> one window after the clock
  read in the handler, leaving the store as it was.
\<close>

theorem checkRateLimit_fails_open:
  assumes "link r = ExecRejects"
  shows "checkRateLimit now later rnd identifier maxRequests windowMs r =
           (\<lparr>allowed = True, remaining = maxRequests, resetAt = later + windowMs\<rparr>, r)"
  using assms by (simp add: checkRateLimit_def pipeline_exec_def)

theorem checkRateLimit_fails_open_witness:
  "link redis_down = ExecRejects \<and>
   checkRateLimit 1700000000000 1700000000007 ''0.5'' ''ip:1.2.3.4'' 3 60000 redis_down =
     (\<lparr>allowed = True, remaining = 3, resetAt = 1700000060007\<rparr>, redis_down)"
proof -
  have d: "link redis_down = ExecRejects" by (simp add: redis_down_def)
  show ?thesis
    using d checkRateLimit_fails_open[OF d, of 1700000000000 1700000000007 "''0.5''" "''ip:1.2.3.4''" 3 60000]
    by simp
qed

text \<open>
  When the commands of the pipeline fail one by one, the call resolves with error entries,
  the count falls back to 0, and the answer is that of an empty window.
\<close>

lemma checkRateLimit_command_errors:
  assumes "link r = CommandsFail"
  shows "checkRateLimit now later rnd identifier maxRequests windowMs r =
           (\<lparr>allowed = 0 < maxRequests, remaining = max 0 (maxRequests - 1),
             resetAt = now + windowMs\<rparr>, r)"
  using assms by (simp add: checkRateLimit_def pipeline_exec_def result_count_def)

section \<open>Properties of sessions and tokens\<close>

lemma session_key_inj: "session_key a = session_key b \<longleftrightarrow> a = b"
  by (simp add: session_key_def)

lemma getCachedSession_id: "getCachedSession now sid w = Some s \<Longrightarrow> s_id s = sid"
  by (auto simp: getCachedSession_def split: if_splits option.splits prod.splits)

lemma getSession_id: "fst (getSession now sid w) = Some s \<Longrightarrow> s_id s = sid"
  by (auto simp: getSession_def dest: getCachedSession_id split: option.splits list.splits
      dest!: arg_cong[where f=set])

lemma users_cacheSession: "users (cacheSession now sid d w) = users w"
  by (simp add: cacheSession_def)

lemma sessions_cacheSession: "sessions (cacheSession now sid d w) = sessions w"
  by (simp add: cacheSession_def)

lemma users_getSession: "users (snd (getSession now sid w)) = users w"
  by (auto simp: getSession_def users_cacheSession split: option.splits list.splits)

lemma sessions_getSession: "sessions (snd (getSession now sid w)) = sessions w"
  by (auto simp: getSession_def sessions_cacheSession split: option.splits list.splits)

lemma up_getSession: "up (cache (snd (getSession now sid w))) = up (cache w)"
  by (auto simp: getSession_def cacheSession_def up_def split: option.splits list.splits)

lemma sessions_deleteSession:
  "sessions (deleteSession sid w) = filter (\<lambda>r. session_id r \<noteq> sid) (sessions w)"
  by (simp add: deleteSession_def deleteCachedSession_def)

lemma strings_deleteSession:
  "up (cache w) \<Longrightarrow> strings (cache (deleteSession sid w)) (session_key sid) = None"
  by (simp add: deleteSession_def deleteCachedSession_def up_def)



lemma filter_id_empty:
  "filter (\<lambda>r. session_id r = sid) rows = [] \<longleftrightarrow> sid \<notin> session_id ` set rows"
  by (auto simp: filter_empty_conv)

lemma getSession_None_iff:
  "fst (getSession now sid w) = None \<longleftrightarrow>
     getCachedSession now sid w = None \<and> sid \<notin> session_id ` set (sessions w)"
  unfolding filter_id_empty[symmetric]
  by (simp add: getSession_def split: option.splits list.splits)

subsection \<open>The session cap\<close>

lemma is_digits_no_hyphen:
  assumes "is_digits s"
  shows "CHR ''-'' \<notin> set s"
proof -
  have "\<not> is_digit (CHR ''-'')" by (simp add: is_digit_def)
  moreover have "\<forall>c \<in> set s. is_digit c"
    using assms by (simp add: is_digits_def list_all_iff)
  ultimately show ?thesis by blast
qed

lemma exponent_part_hyphen:
  assumes "CHR ''-'' \<in> set (tl rest)"
  shows "exponent_part (e # rest) = None"
proof (cases rest)
  case Nil
  then show ?thesis by (simp add: exponent_part_def)
next
  case (Cons c ds)
  then have "CHR ''-'' \<in> set ds" using assms by simp
  then have "\<not> is_digits ds" "\<not> is_digits (c # ds)"
    using is_digits_no_hyphen[of ds] is_digits_no_hyphen[of "c # ds"] by auto
  then show ?thesis using Cons by (simp add: exponent_part_def)
qed

lemma unsigned_decimal_two_hyphens:
  assumes "s = a @ CHR ''-'' # rest" and "CHR ''-'' \<in> set rest" and "CHR ''.'' \<notin> set s"
  shows "unsigned_decimal s = None"
proof -
  let ?P = "\<lambda>c. c \<noteq> CHR ''e'' \<and> c \<noteq> CHR ''E''"
  let ?m = "takeWhile ?P s" and ?x = "dropWhile ?P s"
  have nodot: "dropWhile (\<lambda>c. c \<noteq> CHR ''.'') ?m = []" "takeWhile (\<lambda>c. c \<noteq> CHR ''.'') ?m = ?m"
    using assms(3) by (auto dest: set_takeWhileD)
  show ?thesis
  proof (cases "\<forall>c \<in> set a. ?P c")
    case True
    then have "?m = a @ CHR ''-'' # takeWhile ?P rest"
      using assms(1) by (simp add: takeWhile_append2)
    then have "CHR ''-'' \<in> set ?m" by simp
    then have "\<not> is_digits ?m" using is_digits_no_hyphen by blast
    then show ?thesis by (simp add: unsigned_decimal_def Let_def nodot)
  next
    case False
    then have x: "?x = dropWhile ?P a @ CHR ''-'' # rest"
      using assms(1) by (auto simp: dropWhile_append1)
    from False have "dropWhile ?P a \<noteq> []" by (auto simp: dropWhile_eq_Nil_conv)
    then obtain e a' where a': "dropWhile ?P a = e # a'" by (cases "dropWhile ?P a") auto
    have "CHR ''-'' \<in> set (tl (a' @ CHR ''-'' # rest))"
      using assms(2) by (cases a') auto
    then have "exponent_part ?x = None"
      unfolding x a' using exponent_part_hyphen[of "a' @ CHR ''-'' # rest" e] by simp
    then show ?thesis by (simp add: unsigned_decimal_def Let_def)
  qed
qed

lemma non_decimal_hyphen:
  assumes "CHR ''-'' \<in> set (drop 2 s)"
  shows "non_decimal s = None \<or> non_decimal s = Some NaN"
proof (cases s)
  case Nil
  then show ?thesis by (simp add: non_decimal_def)
next
  case (Cons z s')
  show ?thesis
  proof (cases s')
    case Nil
    then show ?thesis using Cons by (simp add: non_decimal_def)
  next
    case (Cons p ds)
    then have "CHR ''-'' \<in> set ds" using assms \<open>s = z # s'\<close> by simp
    moreover have "\<not> is_radix_digit b (CHR ''-'')" for b
      by (simp add: is_radix_digit_def)
    ultimately have "\<not> list_all (is_radix_digit b) ds" for b
      unfolding list_all_iff by blast
    then show ?thesis using Cons \<open>s = z # s'\<close> by (simp add: non_decimal_def)
  qed
qed

lemma trim_id:
  assumes "s \<noteq> []" "\<not> is_js_space (hd s)" "\<not> is_js_space (last s)"
  shows "trim s = s"
proof -
  have 1: "dropWhile is_js_space s = s"
    using assms(2) by (simp add: dropWhile_eq_self_iff)
  have 2: "dropWhile is_js_space (rev s) = rev s"
    using assms(1,3) by (simp add: dropWhile_eq_self_iff hd_rev)
  show ?thesis by (simp add: trim_def 1 2)
qed

lemma StringToNumber_two_hyphens:
  assumes "s = a @ CHR ''-'' # rest" and "CHR ''-'' \<in> set rest" and "CHR ''.'' \<notin> set s"
      and "CHR ''-'' \<in> set (drop 2 s)"
      and "hd s \<noteq> CHR ''-''" "hd s \<noteq> CHR ''+''" "\<not> is_js_space (hd s)" "\<not> is_js_space (last s)"
  shows "StringToNumber s = NaN"
proof -
  have ne: "s \<noteq> []" using assms(1) by simp
  have t: "trim s = s" using trim_id[OF ne assms(7,8)] .
  have "CHR ''-'' \<in> set s" using assms(1) by simp
  then have "s \<noteq> ''Infinity''" by auto
  then have u: "str_unsigned s = NaN"
    using unsigned_decimal_two_hyphens[OF assms(1,2,3)]
    by (simp add: str_unsigned_def)
  obtain c cs where s: "s = c # cs" using ne by (cases s) auto
  then have c: "c \<noteq> CHR ''-''" "c \<noteq> CHR ''+''" using assms(5,6) by auto
  from non_decimal_hyphen[OF assms(4)] show ?thesis
  proof
    assume "non_decimal s = None"
    then show ?thesis using t u s c by (simp add: StringToNumber_def)
  next
    assume "non_decimal s = Some NaN"
    then show ?thesis using t s by (simp add: StringToNumber_def)
  qed
qed

lemma is_hex_plain:
  assumes "is_hex c"
  shows "c \<noteq> CHR ''-''" "c \<noteq> CHR ''+''" "c \<noteq> CHR ''.''" "\<not> is_js_space c"
  using assms by (auto simp: is_hex_def is_js_space_def)

lemma uuid_text_chars:
  assumes "uuid_text s" "i < 36"
  shows "if i \<in> {8, 13, 18, 23} then s ! i = CHR ''-'' else is_hex (s ! i)"
  using assms by (simp add: uuid_text_def list_all_iff)

lemma StringToNumber_uuid:
  assumes "uuid_text s"
  shows "StringToNumber s = NaN"
proof -
  have len: "length s = 36" using assms by (simp add: uuid_text_def)
  have h8: "s ! 8 = CHR ''-''" and h13: "s ! 13 = CHR ''-''"
    and h0: "is_hex (s ! 0)" and h35: "is_hex (s ! 35)"
    using uuid_text_chars[OF assms, of 8] uuid_text_chars[OF assms, of 13]
      uuid_text_chars[OF assms, of 0] uuid_text_chars[OF assms, of 35] by simp_all
  have ne: "s \<noteq> []" using len by auto
  have hd: "hd s = s ! 0" using ne by (simp add: hd_conv_nth)
  have last: "last s = s ! 35" using ne len by (simp add: last_conv_nth)
  have split: "s = take 8 s @ CHR ''-'' # drop 9 s"
    using id_take_nth_drop[of 8 s] len h8 by simp
  have "drop 9 s ! 4 = CHR ''-''" using len h13 by simp
  moreover have "4 < length (drop 9 s)" using len by simp
  ultimately have second: "CHR ''-'' \<in> set (drop 9 s)"
    by (metis nth_mem)
  have "drop 2 s ! 6 = CHR ''-''" using len h8 by simp
  moreover have "6 < length (drop 2 s)" using len by simp
  ultimately have later: "CHR ''-'' \<in> set (drop 2 s)"
    by (metis nth_mem)
  have nodot: "CHR ''.'' \<notin> set s"
  proof
    assume "CHR ''.'' \<in> set s"
    then obtain i where i: "i < 36" "s ! i = CHR ''.''"
      using len by (auto simp: in_set_conv_nth)
    show False
      using uuid_text_chars[OF assms i(1)] i(2) is_hex_plain(3)[of "s ! i"]
      by (auto split: if_splits)
  qed
  show ?thesis
    using StringToNumber_two_hyphens[OF split second nodot later]
      is_hex_plain[OF h0] is_hex_plain[OF h35] hd last
    by simp
qed

lemma session_count_uuid:
  assumes "list_all uuid_text ids"
  shows "session_count ids = Fin 0 \<or> session_count ids = NaN"
proof (cases ids)
  case Nil
  then show ?thesis by (simp add: session_count_def)
next
  case (Cons c cs)
  then have "uuid_text c" using assms by simp
  then have "StringToNumber c = NaN" by (rule StringToNumber_uuid)
  then show ?thesis using Cons by (simp add: session_count_def)
qed

text \<open>
  \<open>Number\<close> of the text of a UUID is \<open>NaN\<close>: the text has two hyphens after its first
  character, and no numeric literal has. So whenever the ids in the table are UUIDs, as the
  database makes them, the count that \<open>createSession\<close> compares with the cap is 0 or
  \<open>NaN\<close>, the branch that deletes the oldest session is not taken, and the table only
  grows.
\<close>

lemma createSession_never_evicts:
  assumes "0 < cap" and "list_all (\<lambda>r. uuid_text (session_id r)) (sessions w)"
  shows "sessions (snd (createSession cap now new_id data w)) =
           sessions w @
             [\<lparr>session_id = new_id, userId = n_userId data, accessToken = n_accessToken data,
               refreshToken = n_refreshToken data,
               deviceId = (case n_deviceInfo data of None \<Rightarrow> None | Some d \<Rightarrow> di_deviceId d),
               userAgent = (case n_deviceInfo data of None \<Rightarrow> None | Some d \<Rightarrow> di_userAgent d),
               ipAddress = (case n_deviceInfo data of None \<Rightarrow> None | Some d \<Rightarrow> di_ip d),
               expiresAt = n_expiresAt data, createdAt = now, updatedAt = now\<rparr>]"
proof -
  have "list_all uuid_text (userSessionCount now (n_userId data) w)"
    using assms(2) by (auto simp: userSessionCount_def list_all_iff)
  then have "\<not> js_ge (session_count (userSessionCount now (n_userId data) w)) (Fin (of_int cap))"
    using session_count_uuid[of "userSessionCount now (n_userId data) w"] assms(1) by auto
  then show ?thesis
    by (simp add: createSession_def Let_def sessions_cacheSession)
qed

text \<open>
  C1 (the code departs from the claim). The query that should count the live sessions
  selects the column \<open>id\<close> under the name \<open>count\<close>, so \<open>Number\<close> is applied to a UUID and
  gives \<open>NaN\<close>, and \<open>NaN >= cap\<close> is false: nothing is ever evicted. With a cap of two,
  three logins of one user leave all three sessions live; with the cap of the source (ten),
  eleven logins leave eleven.
\<close>

theorem createSession_cap_not_enforced:
  "map sm_id (getUserSessions 1700000003000 userU three_sessions) = [sidA, sidB, sidC]
   \<and> length (getUserSessions 1700000011000 userU eleven_sessions) = 11"
  by code_simp

subsection \<open>Revocation and the token bound to the session\<close>








text \<open>
  The cache has to be in reach when the session is deleted. If the \<open>del\<close> fails,
  \<open>deleteCachedSession\<close> drops the error, the cached copy stays, and once the client is
  connected again the token is accepted until that copy expires.
\<close>

lemma authenticate_after_failed_cache_delete:
  "fst (authenticate cfg0 1700000060000 (Bearer access0)
         (cache_link Connected
            (deleteSession sidA (cache_link CommandsFail (login 1700000000000 1700000000000))))) =
     Inr \<lparr>ctx_userId = userU, ctx_sessionId = sidA, ctx_userRole = Some ''owner''\<rparr>
   \<and> sessions (deleteSession sidA (cache_link CommandsFail (login 1700000000000 1700000000000))) = []"
  by code_simp

subsection \<open>The access token round trip\<close>


subsection \<open>Reading a session\<close>

lemma login_row:
  "filter (\<lambda>r. session_id r = sidA) (sessions (login 1700000000000 1700000000000)) =
     [\<lparr>session_id = sidA, userId = userU, accessToken = access0, refreshToken = refresh0,
       deviceId = None, userAgent = None, ipAddress = None,
       expiresAt = 1700604800000, createdAt = 1700000000000, updatedAt = 1700000000000\<rparr>]"
  by code_simp

lemma login_cache_gone:
  "getCachedSession 1700691200000 sidA (login 1700000000000 1700000000000) = None"
  by code_simp

text \<open>
  C5, as stated, fails: eight days after the login, the session whose \<open>expiresAt\<close> passed a
  day earlier is still in the table, and \<open>getSession\<close> returns it.
\<close>

theorem getSession_expired_counterexample:
  "fst (getSession 1700691200000 sidA (login 1700000000000 1700000000000)) =
     Some \<lparr>s_id = sidA, s_userId = userU, s_accessToken = access0, s_refreshToken = refresh0,
           s_expiresAt = 1700604800000\<rparr>
   \<and> (1700604800000 :: int) < 1700691200000"
  by code_simp

text \<open>
  C5, as amended. \<open>getSession\<close> does not look at \<open>expiresAt\<close>. A session that is still in
  the table is never reported as missing, whatever its expiry; when the cache has no copy
  the stored row is returned as it is, its past \<open>expiresAt\<close> included. (The callers compare
  \<open>expiresAt\<close> with the clock themselves.)
\<close>

theorem getSession_ignores_expiry:
  assumes "filter (\<lambda>r. session_id r = sid) (sessions w) = r # rs"
  shows "fst (getSession now sid w) \<noteq> None
         \<and> (getCachedSession now sid w = None \<longrightarrow>
              fst (getSession now sid w) =
                Some \<lparr>s_id = sid, s_userId = userId r, s_accessToken = accessToken r,
                      s_refreshToken = refreshToken r, s_expiresAt = expiresAt r\<rparr>)"
proof -
  have "r \<in> set (filter (\<lambda>r. session_id r = sid) (sessions w))"
    using assms by simp
  then have "session_id r = sid" by simp
  then show ?thesis using assms
    by (simp add: getSession_def split: option.splits)
qed

theorem getSession_ignores_expiry_witness:
  "filter (\<lambda>r. session_id r = sidA) (sessions (login 1700000000000 1700000000000)) =
     [\<lparr>session_id = sidA, userId = userU, accessToken = access0, refreshToken = refresh0,
       deviceId = None, userAgent = None, ipAddress = None,
       expiresAt = 1700604800000, createdAt = 1700000000000, updatedAt = 1700000000000\<rparr>]
   \<and> getCachedSession 1700691200000 sidA (login 1700000000000 1700000000000) = None
   \<and> fst (getSession 1700691200000 sidA (login 1700000000000 1700000000000)) =
       Some \<lparr>s_id = sidA, s_userId = userU, s_accessToken = access0, s_refreshToken = refresh0,
             s_expiresAt = 1700604800000\<rparr>"
  using getSession_ignores_expiry[OF login_row, of 1700691200000] login_row login_cache_gone
  by simp

subsection \<open>Refreshing\<close>

text \<open>
  C6. A refresh token that verifies and names a session that is found and not expired,
  whose user exists, is accepted and answered with a fresh pair even when it differs from
  the refresh token stored on that session: the stored value is never compared.
\<close>

theorem refreshToken_accepts_rotated_token:
  assumes "verifyRefreshToken cfg now t = Inr (uid, sid)"
      and "fst (getSession now sid w) = Some s"
      and "\<not> s_expiresAt s < now"
      and "filter (\<lambda>u. user_id u = s_userId s) (users w) = user # others"
      and "s_refreshToken s \<noteq> t"
  shows "fst (AuthService_refreshToken cfg now t w) =
           Inr (generateAccessToken cfg now (user_id user) sid (role user),
                generateRefreshToken cfg now (user_id user) sid)"
proof -
  obtain w1 where g: "getSession now sid w = (Some s, w1)"
    using assms(2) by (cases "getSession now sid w") simp
  have u: "users w1 = users w"
    using users_getSession[of now sid w] g by simp
  have i: "s_id s = sid"
    using getSession_id[OF assms(2)] .
  show ?thesis
    using assms(1,3,4) g u i by (simp add: AuthService_refreshToken_def Let_def)
qed

lemma verify_refresh0: "verifyRefreshToken cfg0 1700001200000 refresh0 = Inr (userU, sidA)"
  by code_simp

lemma getSession_rotated: "fst (getSession 1700001200000 sidA rotated) = Some rotated_session"
  by code_simp

lemma rotated_live: "\<not> s_expiresAt rotated_session < 1700001200000"
  by code_simp

lemma rotated_user:
  "filter (\<lambda>u. user_id u = s_userId rotated_session) (users rotated) = [\<lparr>user_id = userU, role = ''owner''\<rparr>]"
  by code_simp

lemma rotated_differs: "s_refreshToken rotated_session \<noteq> refresh0"
  by code_simp

theorem refreshToken_accepts_rotated_token_witness:
  "verifyRefreshToken cfg0 1700001200000 refresh0 = Inr (userU, sidA)
   \<and> fst (getSession 1700001200000 sidA rotated) = Some rotated_session
   \<and> \<not> s_expiresAt rotated_session < 1700001200000
   \<and> filter (\<lambda>u. user_id u = s_userId rotated_session) (users rotated) = [\<lparr>user_id = userU, role = ''owner''\<rparr>]
   \<and> s_refreshToken rotated_session \<noteq> refresh0
   \<and> fst (AuthService_refreshToken cfg0 1700001200000 refresh0 rotated) =
       Inr (generateAccessToken cfg0 1700001200000 userU sidA ''owner'',
            generateRefreshToken cfg0 1700001200000 userU sidA)"
  using refreshToken_accepts_rotated_token[OF verify_refresh0 getSession_rotated rotated_live rotated_user rotated_differs]
    verify_refresh0 getSession_rotated rotated_live rotated_user rotated_differs
  by simp

text \<open>
  C8. A refresh token that verifies and names a session whose \<open>expiresAt\<close> is in the past is
  refused with \<open>AuthenticationError "Session expired"\<close>, and the state left behind has no
  row of that id and, the cache being in reach, no cached copy of it.
\<close>

theorem refreshToken_expired_session:
  assumes "verifyRefreshToken cfg now t = Inr (uid, sid)"
      and "fst (getSession now sid w) = Some s"
      and "s_expiresAt s < now"
  shows "fst (AuthService_refreshToken cfg now t w) = Inl (AuthenticationError ''Session expired'')
         \<and> sid \<notin> session_id ` set (sessions (snd (AuthService_refreshToken cfg now t w)))
         \<and> (up (cache w) \<longrightarrow> strings (cache (snd (AuthService_refreshToken cfg now t w))) (session_key sid) = None)"
proof -
  obtain w1 where g: "getSession now sid w = (Some s, w1)"
    using assms(2) by (cases "getSession now sid w") simp
  have i: "s_id s = sid"
    using getSession_id[OF assms(2)] .
  have r: "AuthService_refreshToken cfg now t w = (Inl (AuthenticationError ''Session expired''), deleteSession sid w1)"
    using assms(1,3) g i by (simp add: AuthService_refreshToken_def)
  have up1: "up (cache w1) = up (cache w)"
    using up_getSession[of now sid w] g by simp
  show ?thesis
    unfolding r using up1 by (auto simp: sessions_deleteSession strings_deleteSession)
qed

lemma verify_late: "verifyRefreshToken cfg0 1700604800500 late_refresh = Inr (userU, sidA)"
  by code_simp

lemma getSession_late:
  "fst (getSession 1700604800500 sidA (login 1700000000000 1700000001500)) = Some late_session"
  by code_simp

lemma late_expired: "s_expiresAt late_session < 1700604800500"
  by code_simp

lemma up_late: "up (cache (login 1700000000000 1700000001500))"
  by code_simp

theorem refreshToken_expired_session_witness:
  "verifyRefreshToken cfg0 1700604800500 late_refresh = Inr (userU, sidA)
   \<and> fst (getSession 1700604800500 sidA (login 1700000000000 1700000001500)) = Some late_session
   \<and> s_expiresAt late_session < 1700604800500
   \<and> up (cache (login 1700000000000 1700000001500))
   \<and> fst (AuthService_refreshToken cfg0 1700604800500 late_refresh (login 1700000000000 1700000001500))
       = Inl (AuthenticationError ''Session expired'')
   \<and> sidA \<notin> session_id ` set (sessions (snd (AuthService_refreshToken cfg0 1700604800500 late_refresh
                                                  (login 1700000000000 1700000001500))))
   \<and> strings (cache (snd (AuthService_refreshToken cfg0 1700604800500 late_refresh
                               (login 1700000000000 1700000001500)))) (session_key sidA) = None"
  using refreshToken_expired_session[OF verify_late getSession_late late_expired]
    verify_late getSession_late late_expired up_late
  by simp

subsection \<open>The role of a session found by its access token\<close>

text \<open>
  C10. When the lookup by access token finds a session row and no user row has that
  session's \<open>userId\<close>, the result is not null: it carries the row's id and user id and the
  role \<open>staff\<close>.
\<close>

theorem getSessionByAccessToken_role_fallback:
  assumes "filter (\<lambda>r. accessToken r = t) (sessions w) = r # rs"
      and "userId r \<notin> user_id ` set (users w)"
  shows "getSessionByAccessToken t w =
           Some \<lparr>i_id = session_id r, i_userId = userId r, i_role = ''staff''\<rparr>"
proof -
  have "filter (\<lambda>u. user_id u = userId r) (users w) = []"
    using assms(2) by (auto simp: filter_empty_conv image_iff)
  then show ?thesis using assms(1) by (simp add: getSessionByAccessToken_def)
qed

lemma orphan_row:
  "filter (\<lambda>r. accessToken r = access0) (sessions orphan_world) =
     [\<lparr>session_id = sidA, userId = userU, accessToken = access0, refreshToken = refresh0,
       deviceId = None, userAgent = None, ipAddress = None,
       expiresAt = 1700604800000, createdAt = 1700000000000, updatedAt = 1700000000000\<rparr>]"
  by code_simp

lemma orphan_user:
  "userId \<lparr>session_id = sidA, userId = userU, accessToken = access0, refreshToken = refresh0,
       deviceId = None, userAgent = None, ipAddress = None,
       expiresAt = 1700604800000, createdAt = 1700000000000, updatedAt = 1700000000000\<rparr>
     \<notin> user_id ` set (users orphan_world)"
  by (simp add: orphan_world_def)

theorem getSessionByAccessToken_role_fallback_witness:
  "filter (\<lambda>r. accessToken r = access0) (sessions orphan_world) =
     [\<lparr>session_id = sidA, userId = userU, accessToken = access0, refreshToken = refresh0,
       deviceId = None, userAgent = None, ipAddress = None,
       expiresAt = 1700604800000, createdAt = 1700000000000, updatedAt = 1700000000000\<rparr>]
   \<and> userU \<notin> user_id ` set (users orphan_world)
   \<and> getSessionByAccessToken access0 orphan_world =
       Some \<lparr>i_id = sidA, i_userId = userU, i_role = ''staff''\<rparr>"
  using getSessionByAccessToken_role_fallback[OF orphan_row orphan_user] orphan_row orphan_user
  by simp

section \<open>Properties of \<open>isTokenExpired\<close>\<close>

lemma falsy_cases: "\<not> truthy v \<longleftrightarrow> v \<in> {JNull, JBool False, JNum 0, JStr []}"
  by (cases v) auto

lemma decodeToken_shape:
  "length (split (CHR ''.'') token) \<noteq> 3 \<or> split (CHR ''.'') token ! 1 = [] \<Longrightarrow> decodeToken token = None"
  by (auto simp: decodeToken_def Let_def)

text \<open>
  C9, as amended. \<open>isTokenExpired\<close> answers true for every string that does not split at its
  dots into three parts with a non-empty middle part, whose middle part does not decode to
  a JSON value, whose decoded value is falsy, or whose decoded value has no member \<open>exp\<close> or
  a falsy one (\<open>null\<close>, \<open>false\<close>, \<open>0\<close>, the empty string).
\<close>

theorem isTokenExpired_fail_closed:
  assumes "length (split (CHR ''.'') token) \<noteq> 3
           \<or> split (CHR ''.'') token ! 1 = []
           \<or> decodeToken token = None
           \<or> (\<exists>d. decodeToken token = Some d
                  \<and> (d \<in> {JNull, JBool False, JNum 0, JStr []}
                       \<or> member_of d ''exp'' \<in> {None, Some JNull, Some (JBool False), Some (JNum 0), Some (JStr [])}))"
  shows "isTokenExpired now token"
proof -
  consider (undecodable) "decodeToken token = None"
    | (falsy_value) d where "decodeToken token = Some d" "\<not> truthy d"
    | (no_exp) d where "decodeToken token = Some d" "member_of d ''exp'' = None"
    | (falsy_exp) d e where "decodeToken token = Some d" "member_of d ''exp'' = Some e" "\<not> truthy e"
    using assms decodeToken_shape[of token] by (auto simp: falsy_cases)
  then show ?thesis
    by cases (simp_all add: isTokenExpired_def)
qed

lemma two_parts: "length (split (CHR ''.'') ''header.payload'') \<noteq> 3"
  by code_simp

lemma empty_middle: "split (CHR ''.'') ''header..signature'' ! 1 = []"
  by code_simp

lemma not_json: "decodeToken ''header.payload.signature'' = None"
  by code_simp

lemma null_payload: "decodeToken ''header.bnVsbA.signature'' = Some JNull"
  by code_simp

lemma empty_object: "decodeToken ''header.e30.signature'' = Some (JObj [])"
  by code_simp

lemma zero_exp: "decodeToken ''header.eyJleHAiOjB9.signature'' = Some (JObj [(''exp'', JNum 0)])"
  by code_simp

theorem isTokenExpired_fail_closed_witness:
  "length (split (CHR ''.'') ''header.payload'') \<noteq> 3
   \<and> isTokenExpired 1700000000000 ''header.payload''
   \<and> split (CHR ''.'') ''header..signature'' ! 1 = []
   \<and> isTokenExpired 1700000000000 ''header..signature''
   \<and> decodeToken ''header.payload.signature'' = None
   \<and> isTokenExpired 1700000000000 ''header.payload.signature''
   \<and> decodeToken ''header.bnVsbA.signature'' = Some JNull
   \<and> isTokenExpired 1700000000000 ''header.bnVsbA.signature''
   \<and> decodeToken ''header.e30.signature'' = Some (JObj [])
   \<and> isTokenExpired 1700000000000 ''header.e30.signature''
   \<and> decodeToken ''header.eyJleHAiOjB9.signature'' = Some (JObj [(''exp'', JNum 0)])
   \<and> isTokenExpired 1700000000000 ''header.eyJleHAiOjB9.signature''"
proof -
  have 1: "isTokenExpired 1700000000000 ''header.payload''"
    by (rule isTokenExpired_fail_closed) (simp add: two_parts)
  have 2: "isTokenExpired 1700000000000 ''header..signature''"
    by (rule isTokenExpired_fail_closed[OF disjI2[OF disjI1[OF empty_middle]]])
  have 3: "isTokenExpired 1700000000000 ''header.payload.signature''"
    by (rule isTokenExpired_fail_closed) (simp add: not_json)
  have 4: "isTokenExpired 1700000000000 ''header.bnVsbA.signature''"
    by (rule isTokenExpired_fail_closed) (simp add: null_payload)
  have 5: "isTokenExpired 1700000000000 ''header.e30.signature''"
    by (rule isTokenExpired_fail_closed) (simp add: empty_object)
  have 6: "isTokenExpired 1700000000000 ''header.eyJleHAiOjB9.signature''"
    by (rule isTokenExpired_fail_closed) (simp add: zero_exp)
  show ?thesis
    using 1 2 3 4 5 6 two_parts empty_middle not_json null_payload empty_object zero_exp
    by simp
qed

text \<open>
  C9, as stated, fails: the payload \<open>{"exp":"abc"}\<close> has no numeric \<open>exp\<close>, the string is
  truthy, \<open>"abc" * 1000\<close> is \<open>NaN\<close>, and \<open>NaN < Date.now()\<close> is false: the token is reported
  as not expired.
\<close>

theorem isTokenExpired_string_exp_counterexample:
  "decodeToken string_exp_token = Some (JObj [(''exp'', JStr ''abc'')])
   \<and> \<not> isTokenExpired 1700000000000 string_exp_token"
  by code_simp

text \<open>
  A numeric \<open>exp\<close> is read in seconds: the payload \<open>{"exp":1700000000}\<close> is live a
  millisecond before that instant and expired a millisecond after it.
\<close>

lemma isTokenExpired_numeric_exp:
  "decodeToken ''header.eyJleHAiOjE3MDAwMDAwMDB9.signature'' = Some (JObj [(''exp'', JNum 1700000000)])
   \<and> \<not> isTokenExpired 1699999999999 ''header.eyJleHAiOjE3MDAwMDAwMDB9.signature''
   \<and> isTokenExpired 1700000000001 ''header.eyJleHAiOjE3MDAwMDAwMDB9.signature''"
  by code_simp

end
